theory Spec2Isabelle
  imports Complex_Main
begin

section \<open>Data model of the real-time performance monitor\<close>

text \<open>
  The embedding follows \<^verbatim>\<open>src/real-time-performance-monitor.py\<close>. A floating-point
  number is the real number that it denotes, and an instant is the number of seconds since
  the epoch; comparisons of floating-point numbers are exact. The arithmetic of the anomaly
  detector, which rounds, is a parameter of the model (the record \<open>arith\<close>). Every
  operation that reads the clock takes the reading as its argument \<open>now\<close>. Python
  exceptions are values of the type \<open>error\<close>.
\<close>

datatype error = AttributeError | KeyError

text \<open>
  The dataclass \<^verbatim>\<open>PerformanceMetric\<close> (lines 40-48). The fields \<^verbatim>\<open>value\<close> and
  \<^verbatim>\<open>unit\<close> are written \<open>mvalue\<close> and \<open>munit\<close>.
\<close>

datatype meta_value = MStr string | MInt int

record PerformanceMetric =
  timestamp :: real
  metric_type :: string
  mvalue :: real
  munit :: string
  source :: string
  metadata :: "(string \<times> meta_value) list option"

text \<open>
  The alert messages are f-strings; a message is kept as its template together with the
  values that are formatted into it.
\<close>

datatype message =
    CriticalMsg string real real
  | WarningMsg string real real
  | AnomalyMsg string real real
  | PredictedMsg string real
  | StatusMsg string int
  | TimeoutMsg string real

text \<open>
  \<^verbatim>\<open>alert_id = f"{metric_type}_{source}_{int(time.time())}"\<close> (line 404): the three
  parts of the identifier, in the order of the f-string.
\<close>

type_synonym alert_ident = "string \<times> string \<times> int"

definition ident_source :: "alert_ident \<Rightarrow> string" where
  "ident_source i = fst (snd i)"

text \<open>
  The dataclass \<^verbatim>\<open>PerformanceAlert\<close> (lines 60-71). It has no field \<^verbatim>\<open>source\<close>. The
  fields \<^verbatim>\<open>metric_type\<close> and \<^verbatim>\<open>timestamp\<close> are written \<open>alert_metric_type\<close> and
  \<open>alert_timestamp\<close>, since the metric record has fields of the same names.
\<close>

record PerformanceAlert =
  alert_id :: alert_ident
  alert_metric_type :: string
  severity :: string
  threshold :: real
  current_value :: real
  message :: message
  alert_timestamp :: real
  resolved :: bool
  resolved_at :: "real option"

text \<open>One entry of \<^verbatim>\<open>config["alerts"]\<close>: a dictionary that may hold either key.\<close>

record thresholds =
  warning :: "real option"
  critical :: "real option"

record endpoint =
  ep_name :: string
  ep_url :: string
  ep_timeout :: "real option"

datatype channel = Email | Slack | Webhook

record config =
  buffer_size :: int
  alert_rules :: "string \<Rightarrow> thresholds option"
  endpoints :: "endpoint list"
  email_enabled :: bool
  slack_enabled :: bool
  webhook_enabled :: bool
  anomaly_detection :: bool
  predictive_alerts :: bool

text \<open>
  The state of \<^verbatim>\<open>RealTimePerformanceMonitor\<close>: the configuration, the in-memory
  buffer and alert list, the two tables of the SQLite database, and the notifications
  sent so far.
\<close>

record monitor =
  cfg :: config
  metrics_buffer :: "PerformanceMetric list"
  alerts :: "PerformanceAlert list"
  db_metrics :: "PerformanceMetric list"
  db_alerts :: "PerformanceAlert list"
  notified :: "(channel \<times> PerformanceAlert) list"

section \<open>The metrics buffer\<close>

text \<open>Python's \<^verbatim>\<open>xs[start:]\<close> for any integer \<^verbatim>\<open>start\<close>.\<close>

definition py_slice_from :: "int \<Rightarrow> 'a list \<Rightarrow> 'a list" where
  "py_slice_from start xs =
     (let n = int (length xs);
          s = (if start < 0 then max (start + n) 0 else min start n)
      in drop (nat s) xs)"

text \<open>\<^verbatim>\<open>store_metric\<close> (lines 351-373): one row appended to the metrics table.\<close>

definition store_metric :: "PerformanceMetric \<Rightarrow> monitor \<Rightarrow> monitor" where
  "store_metric m s = s\<lparr>db_metrics := db_metrics s @ [m]\<rparr>"

text \<open>
  \<^verbatim>\<open>add_metric\<close> (lines 328-349). The broadcast to WebSocket clients changes nothing
  of the state and is left out.
\<close>

definition add_metric ::
  "string \<Rightarrow> real \<Rightarrow> string \<Rightarrow> string \<Rightarrow> (string \<times> meta_value) list option \<Rightarrow> real
     \<Rightarrow> monitor \<Rightarrow> monitor" where
  "add_metric mt v u src md now s =
     (let metric = \<lparr>timestamp = now, metric_type = mt, mvalue = v, munit = u,
                     source = src, metadata = md\<rparr>;
          s1 = s\<lparr>metrics_buffer := metrics_buffer s @ [metric]\<rparr>;
          s2 = store_metric metric s1
      in if int (length (metrics_buffer s2)) > buffer_size (cfg s2)
         then s2\<lparr>metrics_buffer := py_slice_from (- buffer_size (cfg s2)) (metrics_buffer s2)\<rparr>
         else s2)"

section \<open>Creating alerts\<close>

text \<open>
  Reading \<^verbatim>\<open>a.source\<close> of an alert (line 408): the dataclass defines no such
  attribute, so the read raises.
\<close>

definition alert_source :: "PerformanceAlert \<Rightarrow> error + string" where
  "alert_source a = Inl AttributeError"

text \<open>
  The search \<^verbatim>\<open>next((a for a in self.alerts if not a.resolved and
  a.metric_type == metric_type and a.source == source), None)\<close> (lines 407-408). The
  condition is evaluated left to right, so \<^verbatim>\<open>a.source\<close> is read only for an unresolved
  alert of the requested metric type.
\<close>

fun find_existing ::
  "PerformanceAlert list \<Rightarrow> string \<Rightarrow> string \<Rightarrow> error + PerformanceAlert option" where
  "find_existing [] mt src = Inr None"
| "find_existing (a # as) mt src =
     (if \<not> resolved a \<and> alert_metric_type a = mt
      then (case alert_source a of
              Inl e \<Rightarrow> Inl e
            | Inr asrc \<Rightarrow> if asrc = src then Inr (Some a) else find_existing as mt src)
      else find_existing as mt src)"

text \<open>
  \<^verbatim>\<open>store_alert\<close> (lines 429-455): \<^verbatim>\<open>INSERT OR REPLACE\<close> on a table whose
  \<^verbatim>\<open>alert_id\<close> column is unique.
\<close>

definition store_alert :: "PerformanceAlert \<Rightarrow> monitor \<Rightarrow> monitor" where
  "store_alert a s =
     s\<lparr>db_alerts := filter (\<lambda>b. alert_id b \<noteq> alert_id a) (db_alerts s) @ [a]\<rparr>"

text \<open>\<^verbatim>\<open>send_notifications\<close> (lines 457-473): one send per enabled channel.\<close>

definition send_notifications :: "PerformanceAlert \<Rightarrow> monitor \<Rightarrow> monitor" where
  "send_notifications a s =
     s\<lparr>notified := notified s
          @ (if email_enabled (cfg s) then [(Email, a)] else [])
          @ (if slack_enabled (cfg s) then [(Slack, a)] else [])
          @ (if webhook_enabled (cfg s) then [(Webhook, a)] else [])\<rparr>"

text \<open>The record built at lines 413-421.\<close>

definition make_alert ::
  "string \<Rightarrow> string \<Rightarrow> real \<Rightarrow> real \<Rightarrow> message \<Rightarrow> string \<Rightarrow> real \<Rightarrow> PerformanceAlert" where
  "make_alert mt sev th cv msg src now =
     \<lparr>alert_id = (mt, src, \<lfloor>now\<rfloor>), alert_metric_type = mt, severity = sev,
      threshold = th, current_value = cv, message = msg,
      alert_timestamp = now, resolved = False, resolved_at = None\<rparr>"

text \<open>
  \<^verbatim>\<open>create_alert\<close> (lines 401-427). An exception leaves the monitor as it was, so the
  error result carries no state.
\<close>

definition create_alert ::
  "string \<Rightarrow> string \<Rightarrow> real \<Rightarrow> real \<Rightarrow> message \<Rightarrow> string \<Rightarrow> real
     \<Rightarrow> monitor \<Rightarrow> error + monitor" where
  "create_alert mt sev th cv msg src now s =
     (case find_existing (alerts s) mt src of
        Inl e \<Rightarrow> Inl e
      | Inr (Some existing) \<Rightarrow> Inr s
      | Inr None \<Rightarrow>
          (let alert = make_alert mt sev th cv msg src now
           in Inr (send_notifications alert
                     (store_alert alert (s\<lparr>alerts := alerts s @ [alert]\<rparr>)))))"

text \<open>
  The two parts of \<^verbatim>\<open>create_alert\<close>, between which another thread can run: the gate
  (lines 404-411), which raises, tells the call to return (\<open>True\<close>) or lets it go on, and
  the creation (lines 413-427).
\<close>

definition dedup_gate :: "string \<Rightarrow> string \<Rightarrow> monitor \<Rightarrow> error + bool" where
  "dedup_gate mt src s =
     (case find_existing (alerts s) mt src of
        Inl e \<Rightarrow> Inl e
      | Inr (Some existing) \<Rightarrow> Inr True
      | Inr None \<Rightarrow> Inr False)"

definition append_alert ::
  "string \<Rightarrow> string \<Rightarrow> real \<Rightarrow> real \<Rightarrow> message \<Rightarrow> string \<Rightarrow> real
     \<Rightarrow> monitor \<Rightarrow> monitor" where
  "append_alert mt sev th cv msg src now s =
     (let alert = make_alert mt sev th cv msg src now
      in send_notifications alert (store_alert alert (s\<lparr>alerts := alerts s @ [alert]\<rparr>)))"

text \<open>
  \<^verbatim>\<open>check_alerts\<close> (lines 375-399). \<^verbatim>\<open>thresholds.get(key, float('inf'))\<close> with the
  key absent gives a bound that no value reaches.
\<close>

definition reaches :: "real \<Rightarrow> real option \<Rightarrow> bool" where
  "reaches v bound = (case bound of Some b \<Rightarrow> v \<ge> b | None \<Rightarrow> False)"

definition check_alerts :: "string \<Rightarrow> real \<Rightarrow> string \<Rightarrow> real \<Rightarrow> monitor \<Rightarrow> error + monitor" where
  "check_alerts mt v src now s =
     (case alert_rules (cfg s) mt of
        None \<Rightarrow> Inr s
      | Some th \<Rightarrow>
          if reaches v (critical th)
          then (case critical th of
                  None \<Rightarrow> Inl KeyError
                | Some c \<Rightarrow> create_alert mt ''critical'' c v (CriticalMsg mt v c) src now s)
          else if reaches v (warning th)
          then (case warning th of
                  None \<Rightarrow> Inl KeyError
                | Some w \<Rightarrow> create_alert mt ''warning'' w v (WarningMsg mt v w) src now s)
          else Inr s)"

section \<open>Anomaly detection\<close>

text \<open>
  The floating-point arithmetic of the detector: \<^verbatim>\<open>statistics.mean\<close>,
  \<^verbatim>\<open>statistics.stdev\<close>, and the operations \<^verbatim>\<open>+\<close>, \<^verbatim>\<open>-\<close>, \<^verbatim>\<open>*\<close>, \<^verbatim>\<open>/\<close> of
  Python floats. They belong to the Python library and round their results, so the
  detector takes them as a parameter and nothing is assumed of them.
\<close>

record arith =
  fmean :: "real list \<Rightarrow> real"
  fstdev :: "real list \<Rightarrow> real"
  fadd :: "real \<Rightarrow> real \<Rightarrow> real"
  fsub :: "real \<Rightarrow> real \<Rightarrow> real"
  fmul :: "real \<Rightarrow> real \<Rightarrow> real"
  fdiv :: "real \<Rightarrow> real \<Rightarrow> real"

text \<open>
  The arithmetic without rounding: the mean, the sample standard deviation and the field
  operations of the reals. Floating-point arithmetic agrees with it wherever every
  intermediate result is a floating-point number.
\<close>

definition mean :: "real list \<Rightarrow> real" where
  "mean xs = sum_list xs / real (length xs)"

definition stdev :: "real list \<Rightarrow> real" where
  "stdev xs = sqrt (sum_list (map (\<lambda>x. (x - mean xs)\<^sup>2) xs) / real (length xs - 1))"

definition exact :: arith where
  "exact = \<lparr>fmean = mean, fstdev = stdev, fadd = (+), fsub = (-), fmul = (*), fdiv = (/)\<rparr>"

text \<open>The samples of the last hour (lines 535-536).\<close>

definition recent_metrics :: "real \<Rightarrow> monitor \<Rightarrow> PerformanceMetric list" where
  "recent_metrics now s = filter (\<lambda>m. timestamp m > now - 3600) (metrics_buffer s)"

text \<open>
  The dictionary \<^verbatim>\<open>metrics_by_type\<close> (lines 538-542), as an association list in
  the order in which the keys were inserted, which is the order in which a Python
  dictionary is iterated.
\<close>

fun append_value :: "string \<Rightarrow> real \<Rightarrow> (string \<times> real list) list \<Rightarrow> (string \<times> real list) list" where
  "append_value mt v [] = [(mt, [v])]"
| "append_value mt v ((k, vs) # rest) =
     (if k = mt then (k, vs @ [v]) # rest else (k, vs) # append_value mt v rest)"

definition metrics_by_type :: "PerformanceMetric list \<Rightarrow> (string \<times> real list) list" where
  "metrics_by_type recent = foldl (\<lambda>g m. append_value (metric_type m) (mvalue m) g) [] recent"

text \<open>Line 551: \<^verbatim>\<open>statistics.stdev(values) if len(values) > 1 else 0\<close>.\<close>

definition window_stdev :: "arith \<Rightarrow> real list \<Rightarrow> real" where
  "window_stdev ar vs = (if length vs > 1 then fstdev ar vs else 0)"

text \<open>Line 556: \<^verbatim>\<open>abs((metric.value - mean) / stdev) if stdev > 0 else 0\<close>.\<close>

definition z_score :: "arith \<Rightarrow> real \<Rightarrow> real \<Rightarrow> real \<Rightarrow> real" where
  "z_score ar v mu sd = (if sd > 0 then \<bar>fdiv ar (fsub ar v mu) sd\<bar> else 0)"

text \<open>
  The inner loop (lines 554-565) over the recent samples, for one metric type. An
  exception of \<^verbatim>\<open>create_alert\<close> ends the loop; the alerts created before it stay.
\<close>

fun anomaly_scan ::
  "arith \<Rightarrow> PerformanceMetric list \<Rightarrow> string \<Rightarrow> real \<Rightarrow> real \<Rightarrow> real \<Rightarrow> monitor
     \<Rightarrow> monitor \<times> error option" where
  "anomaly_scan ar [] mt mu sd now s = (s, None)"
| "anomaly_scan ar (m # ms) mt mu sd now s =
     (if metric_type m = mt \<and> z_score ar (mvalue m) mu sd > 3
      then (case create_alert (metric_type m) ''warning'' (fadd ar mu (fmul ar 3 sd)) (mvalue m)
                   (AnomalyMsg mt (mvalue m) (z_score ar (mvalue m) mu sd)) (source m) now s of
              Inl e \<Rightarrow> (s, Some e)
            | Inr s' \<Rightarrow> anomaly_scan ar ms mt mu sd now s')
      else anomaly_scan ar ms mt mu sd now s)"

text \<open>
  The outer loop (lines 545-565) over the metric types. It has no handler: an exception
  of the inner loop ends it, and the types after that one are not looked at.
\<close>

fun anomaly_types ::
  "arith \<Rightarrow> (string \<times> real list) list \<Rightarrow> PerformanceMetric list \<Rightarrow> real \<Rightarrow> monitor
     \<Rightarrow> monitor \<times> error option" where
  "anomaly_types ar [] recent now s = (s, None)"
| "anomaly_types ar ((mt, vs) # rest) recent now s =
     (if length vs < 10 then anomaly_types ar rest recent now s
      else (case anomaly_scan ar recent mt (fmean ar vs) (window_stdev ar vs) now s of
              (s', Some e) \<Rightarrow> (s', Some e)
            | (s', None) \<Rightarrow> anomaly_types ar rest recent now s'))"

text \<open>\<^verbatim>\<open>detect_anomalies\<close> (lines 532-565).\<close>

definition detect_anomalies :: "arith \<Rightarrow> real \<Rightarrow> monitor \<Rightarrow> monitor \<times> error option" where
  "detect_anomalies ar now s =
     (let recent = recent_metrics now s
      in anomaly_types ar (metrics_by_type recent) recent now s)"

text \<open>
  A call of \<^verbatim>\<open>create_alert\<close> is the tuple of its arguments (metric type, severity,
  threshold, current value, message, source). \<open>create_all\<close> makes a list of calls one
  after the other, up to the first that raises.
\<close>

type_synonym alert_call = "string \<times> string \<times> real \<times> real \<times> message \<times> string"

fun create_all :: "alert_call list \<Rightarrow> real \<Rightarrow> monitor \<Rightarrow> monitor \<times> error option" where
  "create_all [] now s = (s, None)"
| "create_all ((mt, sev, th, cv, msg, src) # cs) now s =
     (case create_alert mt sev th cv msg src now s of
        Inl e \<Rightarrow> (s, Some e)
      | Inr s' \<Rightarrow> create_all cs now s')"

definition call_alert :: "real \<Rightarrow> alert_call \<Rightarrow> PerformanceAlert" where
  "call_alert now c =
     (case c of (mt, sev, th, cv, msg, src) \<Rightarrow> make_alert mt sev th cv msg src now)"

text \<open>
  The samples that the two loops of the detector flag, as the calls made for them, in the
  order of the loops. This list only serves the proofs about \<open>detect_anomalies\<close>: the
  detector is \<open>create_all\<close> on it (lemma \<open>detect_anomalies_create_all\<close>).
\<close>

definition anomaly_call :: "arith \<Rightarrow> string \<Rightarrow> real \<Rightarrow> real \<Rightarrow> PerformanceMetric \<Rightarrow> alert_call" where
  "anomaly_call ar mt mu sd m =
     (metric_type m, ''warning'', fadd ar mu (fmul ar 3 sd), mvalue m,
      AnomalyMsg mt (mvalue m) (z_score ar (mvalue m) mu sd), source m)"

definition scan_requests ::
  "arith \<Rightarrow> PerformanceMetric list \<Rightarrow> string \<Rightarrow> real \<Rightarrow> real \<Rightarrow> alert_call list" where
  "scan_requests ar recent mt mu sd =
     map (anomaly_call ar mt mu sd)
       (filter (\<lambda>m. metric_type m = mt \<and> z_score ar (mvalue m) mu sd > 3) recent)"

fun type_requests ::
  "arith \<Rightarrow> (string \<times> real list) list \<Rightarrow> PerformanceMetric list \<Rightarrow> alert_call list" where
  "type_requests ar [] recent = []"
| "type_requests ar ((mt, vs) # rest) recent =
     (if length vs < 10 then type_requests ar rest recent
      else scan_requests ar recent mt (fmean ar vs) (window_stdev ar vs)
           @ type_requests ar rest recent)"

definition anomaly_requests :: "arith \<Rightarrow> real \<Rightarrow> monitor \<Rightarrow> alert_call list" where
  "anomaly_requests ar now s =
     (let recent = recent_metrics now s in type_requests ar (metrics_by_type recent) recent)"

text \<open>The values of one metric type in the recent window, in buffer order.\<close>

definition window_values :: "string \<Rightarrow> real \<Rightarrow> monitor \<Rightarrow> real list" where
  "window_values mt now s =
     map mvalue (filter (\<lambda>m. metric_type m = mt) (recent_metrics now s))"



text \<open>Being an unresolved alert of a metric type, and of a (metric type, source) key.\<close>

definition open_for :: "string \<Rightarrow> PerformanceAlert \<Rightarrow> bool" where
  "open_for mt a = (\<not> resolved a \<and> alert_metric_type a = mt)"

definition open_for_key :: "string \<Rightarrow> string \<Rightarrow> PerformanceAlert \<Rightarrow> bool" where
  "open_for_key mt src a =
     (\<not> resolved a \<and> alert_metric_type a = mt \<and> ident_source (alert_id a) = src)"

section \<open>Trend prediction\<close>

text \<open>
  \<^verbatim>\<open>get_metric_history\<close> (lines 616-648): the rows of one metric type newer than the
  cutoff, ordered by timestamp.
\<close>

definition get_metric_history :: "string \<Rightarrow> real \<Rightarrow> real \<Rightarrow> monitor \<Rightarrow> PerformanceMetric list" where
  "get_metric_history mt hours now s =
     sort_key timestamp
       (filter (\<lambda>m. metric_type m = mt \<and> timestamp m > now - hours * 3600) (db_metrics s))"

text \<open>The slope of lines 582-591.\<close>

definition trend_slope :: "real list \<Rightarrow> real list \<Rightarrow> real" where
  "trend_slope ts vals =
     (let n = real (length ts);
          sum_t = sum_list ts;
          sum_v = sum_list vals;
          sum_tv = sum_list (map (\<lambda>(t, v). t * v) (zip ts vals));
          sum_t2 = sum_list (map (\<lambda>t. t * t) ts)
      in if n * sum_t2 - sum_t * sum_t \<noteq> 0
         then (n * sum_tv - sum_t * sum_v) / (n * sum_t2 - sum_t * sum_t)
         else 0)"

text \<open>Lines 577-579: the time of a sample is its age in hours.\<close>

definition sample_times :: "real \<Rightarrow> PerformanceMetric list \<Rightarrow> real list" where
  "sample_times now hist = map (\<lambda>m. (now - timestamp m) / 3600) hist"

text \<open>Lines 577-595: the value that is compared with the critical threshold.\<close>

definition predicted_value :: "real \<Rightarrow> PerformanceMetric list \<Rightarrow> real" where
  "predicted_value now hist =
     (let ts = sample_times now hist;
          vals = map mvalue hist;
          slope = trend_slope ts vals;
          current_value = (if vals \<noteq> [] then last vals else 0)
      in current_value + slope * 6)"

text \<open>The loop of \<^verbatim>\<open>generate_predictive_alerts\<close> (lines 569-608).\<close>

fun predictive_loop :: "string list \<Rightarrow> real \<Rightarrow> monitor \<Rightarrow> monitor \<times> error option" where
  "predictive_loop [] now s = (s, None)"
| "predictive_loop (mt # rest) now s =
     (let historical_data = get_metric_history mt 24 now s
      in if length historical_data < 20 then predictive_loop rest now s
         else if length historical_data = 0 then predictive_loop rest now s
         else (case alert_rules (cfg s) mt of
                 None \<Rightarrow> predictive_loop rest now s
               | Some th \<Rightarrow>
                   (let critical_threshold = (case critical th of Some c \<Rightarrow> c | None \<Rightarrow> 90);
                        p = predicted_value now historical_data
                    in if p \<ge> critical_threshold
                       then (case create_alert mt ''warning'' critical_threshold p
                                    (PredictedMsg mt p) ''prediction'' now s of
                               Inl e \<Rightarrow> (s, Some e)
                             | Inr s' \<Rightarrow> predictive_loop rest now s')
                       else predictive_loop rest now s)))"

definition generate_predictive_alerts :: "real \<Rightarrow> monitor \<Rightarrow> monitor \<times> error option" where
  "generate_predictive_alerts now s =
     predictive_loop [''cpu_usage'', ''memory_usage'', ''disk_usage''] now s"

text \<open>
  The line that the words "ordinary least squares" describe, with \<open>t\<close> the time elapsed
  since an origin, in hours: the slope and intercept that minimise the squared error of
  \<open>a + b * t\<close> over the samples, and the value of that line \<open>h\<close> hours after the time
  coordinate \<open>t0\<close>. These four definitions follow the specification, to be compared with
  \<open>predicted_value\<close>.
\<close>

definition elapsed_hours :: "real \<Rightarrow> PerformanceMetric list \<Rightarrow> real list" where
  "elapsed_hours origin hist = map (\<lambda>m. (timestamp m - origin) / 3600) hist"

definition ols_slope :: "real list \<Rightarrow> real list \<Rightarrow> real" where
  "ols_slope ts vs =
     sum_list (map (\<lambda>(t, v). (t - mean ts) * (v - mean vs)) (zip ts vs))
       / sum_list (map (\<lambda>t. (t - mean ts)\<^sup>2) ts)"

definition ols_intercept :: "real list \<Rightarrow> real list \<Rightarrow> real" where
  "ols_intercept ts vs = mean vs - ols_slope ts vs * mean ts"

definition ols_projection :: "real list \<Rightarrow> real list \<Rightarrow> real \<Rightarrow> real \<Rightarrow> real" where
  "ols_projection ts vs t0 h = ols_intercept ts vs + ols_slope ts vs * (t0 + h)"

section \<open>Endpoint checks\<close>

text \<open>
  What \<^verbatim>\<open>requests.get\<close> did: a response with its status code and the measured time in
  milliseconds, \<^verbatim>\<open>requests.exceptions.Timeout\<close>, or any other exception (a refused
  connection, for one).
\<close>

datatype outcome = Response int real | Timeout | Failure

text \<open>
  \<^verbatim>\<open>check_endpoint\<close> (lines 279-326). An exception inside the \<^verbatim>\<open>try\<close> body is caught
  by the last handler and logged; an exception inside the \<^verbatim>\<open>Timeout\<close> handler leaves
  the function.
\<close>

definition check_endpoint :: "endpoint \<Rightarrow> outcome \<Rightarrow> real \<Rightarrow> monitor \<Rightarrow> monitor \<times> error option" where
  "check_endpoint ep out now s =
     (case out of
        Response status_code response_time \<Rightarrow>
          (let s1 = add_metric ''response_time'' response_time ''ms'' (ep_name ep)
                      (Some [(''url'', MStr (ep_url ep)), (''status_code'', MInt status_code)]) now s;
               s2 = add_metric ''availability'' (if status_code < 400 then 100 else 0)
                      ''percent'' (ep_name ep) None now s1
           in case (if status_code \<ge> 400
                    then create_alert ''availability'' ''critical'' 100 0
                           (StatusMsg (ep_name ep) status_code) ''system'' now s2
                    else Inr s2) of
                Inl e \<Rightarrow> (s2, None)
              | Inr s3 \<Rightarrow>
                  (case check_alerts ''response_time'' response_time (ep_name ep) now s3 of
                     Inl e \<Rightarrow> (s3, None)
                   | Inr s4 \<Rightarrow> (s4, None)))
      | Timeout \<Rightarrow>
          (case create_alert ''availability'' ''critical'' 100 0
                  (TimeoutMsg (ep_name ep) (case ep_timeout ep of Some t \<Rightarrow> t | None \<Rightarrow> 10))
                  ''system'' now s of
             Inl e \<Rightarrow> (s, Some e)
           | Inr s' \<Rightarrow> (s', None))
      | Failure \<Rightarrow> (s, None))"

section \<open>The monitoring loops\<close>

text \<open>The readings of one pass of \<^verbatim>\<open>monitor_system_metrics\<close>.\<close>

record readings =
  cpu_percent :: real
  memory_percent :: real
  disk_percent :: real
  bytes_sent :: real
  bytes_recv :: real

text \<open>
  One pass of the loop of \<^verbatim>\<open>monitor_system_metrics\<close> (lines 233-264): an exception is
  caught by the handler of the loop, which logs it and goes on with the next pass.
\<close>

definition system_tick :: "readings \<Rightarrow> real \<Rightarrow> monitor \<Rightarrow> monitor" where
  "system_tick r now s =
     (let s1 = add_metric ''cpu_usage'' (cpu_percent r) ''percent'' ''system'' None now s;
          s2 = add_metric ''memory_usage'' (memory_percent r) ''percent'' ''system'' None now s1;
          s3 = add_metric ''disk_usage'' (disk_percent r) ''percent'' ''system'' None now s2;
          s4 = add_metric ''network_bytes_sent'' (bytes_sent r) ''bytes'' ''system'' None now s3;
          s5 = add_metric ''network_bytes_recv'' (bytes_recv r) ''bytes'' ''system'' None now s4
      in case check_alerts ''cpu_usage'' (cpu_percent r) ''system'' now s5 of
           Inl e \<Rightarrow> s5
         | Inr s6 \<Rightarrow>
             (case check_alerts ''memory_usage'' (memory_percent r) ''system'' now s6 of
                Inl e \<Rightarrow> s6
              | Inr s7 \<Rightarrow>
                  (case check_alerts ''disk_usage'' (disk_percent r) ''system'' now s7 of
                     Inl e \<Rightarrow> s7
                   | Inr s8 \<Rightarrow> s8)))"

text \<open>
  One pass of the loop of \<^verbatim>\<open>monitor_web_endpoints\<close> (lines 268-277); \<open>net\<close> gives the
  outcome of the request to each endpoint.
\<close>

fun endpoint_loop :: "endpoint list \<Rightarrow> (endpoint \<Rightarrow> outcome) \<Rightarrow> real \<Rightarrow> monitor \<Rightarrow> monitor" where
  "endpoint_loop [] net now s = s"
| "endpoint_loop (ep # rest) net now s =
     (case check_endpoint ep (net ep) now s of
        (s', Some e) \<Rightarrow> s'
      | (s', None) \<Rightarrow> endpoint_loop rest net now s')"

definition endpoint_tick :: "(endpoint \<Rightarrow> outcome) \<Rightarrow> real \<Rightarrow> monitor \<Rightarrow> monitor" where
  "endpoint_tick net now s = endpoint_loop (endpoints (cfg s)) net now s"

text \<open>One pass of \<^verbatim>\<open>ai_analytics_loop\<close> (lines 515-530).\<close>

definition analytics_tick :: "arith \<Rightarrow> real \<Rightarrow> monitor \<Rightarrow> monitor" where
  "analytics_tick ar now s =
     (case (if anomaly_detection (cfg s) then detect_anomalies ar now s else (s, None)) of
        (s1, Some e) \<Rightarrow> s1
      | (s1, None) \<Rightarrow>
          if predictive_alerts (cfg s1) then fst (generate_predictive_alerts now s1) else s1)"

text \<open>
  The monitor after \<^verbatim>\<open>__init__\<close> (lines 89-101): empty buffer and alert list; the
  database file may hold the rows of earlier runs.
\<close>

definition init_monitor ::
  "config \<Rightarrow> PerformanceMetric list \<Rightarrow> PerformanceAlert list \<Rightarrow> monitor" where
  "init_monitor c rows arows =
     \<lparr>cfg = c, metrics_buffer = [], alerts = [], db_metrics = rows, db_alerts = arows,
      notified = []\<rparr>"

text \<open>The built-in configuration of \<^verbatim>\<open>load_config\<close> (lines 105-153).\<close>

definition default_rules :: "string \<Rightarrow> thresholds option" where
  "default_rules mt =
     (if mt = ''cpu_usage'' then Some \<lparr>warning = Some 70, critical = Some 90\<rparr>
      else if mt = ''memory_usage'' then Some \<lparr>warning = Some 75, critical = Some 90\<rparr>
      else if mt = ''response_time'' then Some \<lparr>warning = Some 2000, critical = Some 5000\<rparr>
      else if mt = ''error_rate'' then Some \<lparr>warning = Some 1, critical = Some 5\<rparr>
      else if mt = ''disk_usage'' then Some \<lparr>warning = Some 80, critical = Some 95\<rparr>
      else None)"

definition default_config :: config where
  "default_config =
     \<lparr>buffer_size = 1000, alert_rules = default_rules,
      endpoints = [\<lparr>ep_name = ''api'', ep_url = ''https://api.example.com/health'',
                     ep_timeout = Some 10\<rparr>,
                   \<lparr>ep_name = ''website'', ep_url = ''https://example.com'',
                     ep_timeout = Some 5\<rparr>],
      email_enabled = False, slack_enabled = False, webhook_enabled = False,
      anomaly_detection = True, predictive_alerts = True\<rparr>"

section \<open>The deduplication invariant and sample monitors\<close>

definition dedup_inv :: "monitor \<Rightarrow> bool" where
  "dedup_inv s = (\<forall>mt. length (filter (open_for mt) (alerts s)) \<le> 1)"

text \<open>A monitor on the built-in configuration with one open warning alert on the CPU.\<close>

definition cpu_warning_alert :: PerformanceAlert where
  "cpu_warning_alert =
     make_alert ''cpu_usage'' ''warning'' 70 75 (WarningMsg ''cpu_usage'' 75 70) ''system'' 100"

definition monitor_with_warning :: monitor where
  "monitor_with_warning =
     \<lparr>cfg = default_config, metrics_buffer = [], alerts = [cpu_warning_alert],
      db_metrics = [], db_alerts = [cpu_warning_alert], notified = []\<rparr>"

text \<open>The alerts that a step added, and the alerts of one metric type.\<close>

definition new_alerts :: "monitor \<Rightarrow> monitor \<Rightarrow> PerformanceAlert list" where
  "new_alerts s s' = drop (length (alerts s)) (alerts s')"

definition of_type :: "string \<Rightarrow> PerformanceAlert list \<Rightarrow> PerformanceAlert list" where
  "of_type mt as = filter (\<lambda>a. alert_metric_type a = mt) as"

text \<open>Inserting a sequence of samples, one call of \<^verbatim>\<open>add_metric\<close> each.\<close>

fun add_all :: "PerformanceMetric list \<Rightarrow> monitor \<Rightarrow> monitor" where
  "add_all [] s = s"
| "add_all (m # ms) s =
     add_all ms (add_metric (metric_type m) (mvalue m) (munit m) (source m) (metadata m)
                   (timestamp m) s)"

text \<open>
  A buffer for the anomaly detector, read at the instant 1000: sixteen CPU samples (fifteen
  at 50, one at 54: mean 50.25, standard deviation 1), two memory samples, and ten disk
  samples of the same value.
\<close>

definition sample :: "string \<Rightarrow> real \<Rightarrow> real \<Rightarrow> PerformanceMetric" where
  "sample mt v t =
     \<lparr>timestamp = t, metric_type = mt, mvalue = v, munit = ''percent'',
      source = ''system'', metadata = None\<rparr>"

definition cpu_window :: "PerformanceMetric list" where
  "cpu_window =
     [sample ''cpu_usage'' 50 30, sample ''cpu_usage'' 50 60,
      sample ''cpu_usage'' 50 90, sample ''cpu_usage'' 50 120,
      sample ''cpu_usage'' 50 150, sample ''cpu_usage'' 50 180,
      sample ''cpu_usage'' 50 210, sample ''cpu_usage'' 50 240,
      sample ''cpu_usage'' 50 270, sample ''cpu_usage'' 50 300,
      sample ''cpu_usage'' 50 330, sample ''cpu_usage'' 50 360,
      sample ''cpu_usage'' 50 390, sample ''cpu_usage'' 50 420,
      sample ''cpu_usage'' 50 450, sample ''cpu_usage'' 54 480]"

definition memory_window :: "PerformanceMetric list" where
  "memory_window =
     [sample ''memory_usage'' 10 510, sample ''memory_usage'' 99 540]"

definition disk_window :: "PerformanceMetric list" where
  "disk_window =
     [sample ''disk_usage'' 40 570, sample ''disk_usage'' 40 600,
      sample ''disk_usage'' 40 630, sample ''disk_usage'' 40 660,
      sample ''disk_usage'' 40 690, sample ''disk_usage'' 40 720,
      sample ''disk_usage'' 40 750, sample ''disk_usage'' 40 780,
      sample ''disk_usage'' 40 810, sample ''disk_usage'' 40 840]"

definition anomaly_monitor :: monitor where
  "anomaly_monitor =
     \<lparr>cfg = default_config,
      metrics_buffer = cpu_window @ memory_window @ disk_window,
      alerts = [],
      db_metrics = cpu_window @ memory_window @ disk_window,
      db_alerts = [], notified = []\<rparr>"

text \<open>
  A metrics table for the trend predictor, read at the instant 72000 (hour 20): twenty
  hourly CPU rows, nineteen at 0 and the newest, one hour old, at 100.
\<close>

definition trend_rows :: "PerformanceMetric list" where
  "trend_rows =
     [sample ''cpu_usage'' 0 0, sample ''cpu_usage'' 0 3600,
      sample ''cpu_usage'' 0 7200, sample ''cpu_usage'' 0 10800,
      sample ''cpu_usage'' 0 14400, sample ''cpu_usage'' 0 18000,
      sample ''cpu_usage'' 0 21600, sample ''cpu_usage'' 0 25200,
      sample ''cpu_usage'' 0 28800, sample ''cpu_usage'' 0 32400,
      sample ''cpu_usage'' 0 36000, sample ''cpu_usage'' 0 39600,
      sample ''cpu_usage'' 0 43200, sample ''cpu_usage'' 0 46800,
      sample ''cpu_usage'' 0 50400, sample ''cpu_usage'' 0 54000,
      sample ''cpu_usage'' 0 57600, sample ''cpu_usage'' 0 61200,
      sample ''cpu_usage'' 0 64800, sample ''cpu_usage'' 100 68400]"

definition trend_monitor :: monitor where
  "trend_monitor =
     \<lparr>cfg = default_config, metrics_buffer = [], alerts = [],
      db_metrics = trend_rows, db_alerts = [], notified = []\<rparr>"



text \<open>
  A metrics table with a rising trend, read at the instant 72000 (hour 20): twenty hourly
  CPU rows, 70 at hour 0 up to 89 at hour 19, one more each hour.
\<close>

definition rising_rows :: "PerformanceMetric list" where
  "rising_rows =
     [sample ''cpu_usage'' 70 0, sample ''cpu_usage'' 71 3600,
      sample ''cpu_usage'' 72 7200, sample ''cpu_usage'' 73 10800,
      sample ''cpu_usage'' 74 14400, sample ''cpu_usage'' 75 18000,
      sample ''cpu_usage'' 76 21600, sample ''cpu_usage'' 77 25200,
      sample ''cpu_usage'' 78 28800, sample ''cpu_usage'' 79 32400,
      sample ''cpu_usage'' 80 36000, sample ''cpu_usage'' 81 39600,
      sample ''cpu_usage'' 82 43200, sample ''cpu_usage'' 83 46800,
      sample ''cpu_usage'' 84 50400, sample ''cpu_usage'' 85 54000,
      sample ''cpu_usage'' 86 57600, sample ''cpu_usage'' 87 61200,
      sample ''cpu_usage'' 88 64800, sample ''cpu_usage'' 89 68400]"

definition rising_monitor :: monitor where
  "rising_monitor =
     \<lparr>cfg = default_config, metrics_buffer = [], alerts = [],
      db_metrics = rising_rows, db_alerts = [], notified = []\<rparr>"

section \<open>Calls of create_alert on concurrent threads\<close>

text \<open>
  \<^verbatim>\<open>start_monitoring\<close> (lines 214-216) starts the three loops on threads of their own,
  and \<^verbatim>\<open>create_alert\<close> takes no lock, so the calls of different threads interleave. A
  thread inside a call is before the gate (\<open>Calling\<close>, with the clock reading and the
  arguments of the call), past the gate and before the creation (\<open>Passed\<close>), or out of
  the call, returned or raised. \<open>call_step\<close> is the next part of the call of one thread, and
  \<open>interleave\<close> runs the threads in the order of a schedule, which names at each step the
  thread that runs.
\<close>

datatype call_state = Calling real alert_call | Passed real alert_call | Returned | Raised error

fun call_step :: "call_state \<Rightarrow> monitor \<Rightarrow> call_state \<times> monitor" where
  "call_step (Calling now (mt, sev, th, cv, msg, src)) s =
     (case dedup_gate mt src s of
        Inl e \<Rightarrow> (Raised e, s)
      | Inr True \<Rightarrow> (Returned, s)
      | Inr False \<Rightarrow> (Passed now (mt, sev, th, cv, msg, src), s))"
| "call_step (Passed now (mt, sev, th, cv, msg, src)) s =
     (Returned, append_alert mt sev th cv msg src now s)"
| "call_step Returned s = (Returned, s)"
| "call_step (Raised e) s = (Raised e, s)"

fun interleave :: "nat list \<Rightarrow> call_state list \<Rightarrow> monitor \<Rightarrow> call_state list \<times> monitor" where
  "interleave [] ts s = (ts, s)"
| "interleave (i # sched) ts s =
     (if i < length ts
      then (case call_step (ts ! i) s of (t', s') \<Rightarrow> interleave sched (ts[i := t']) s')
      else interleave sched ts s)"

text \<open>What every alert of the trend predictor satisfies.\<close>

definition predicted_alert :: "real \<Rightarrow> monitor \<Rightarrow> string list \<Rightarrow> PerformanceAlert \<Rightarrow> bool" where
  "predicted_alert now s mts a =
     (severity a = ''warning'' \<and> ident_source (alert_id a) = ''prediction''
      \<and> alert_metric_type a \<in> set mts
      \<and> \<not> length (get_metric_history (alert_metric_type a) 24 now s) < 20)"

section \<open>Properties of alert creation\<close>

lemma find_existing_raises:
  "\<exists>a \<in> set as. open_for mt a \<Longrightarrow> find_existing as mt src = Inl AttributeError"
  by (induction as) (auto simp: open_for_def alert_source_def)

lemma find_existing_none:
  "\<forall>a \<in> set as. \<not> open_for mt a \<Longrightarrow> find_existing as mt src = Inr None"
  by (induction as) (auto simp: open_for_def)

lemma create_alert_cases:
  "create_alert mt sev th cv msg src now s =
     (if \<exists>a \<in> set (alerts s). open_for mt a then Inl AttributeError
      else Inr (send_notifications (make_alert mt sev th cv msg src now)
                 (store_alert (make_alert mt sev th cv msg src now)
                    (s\<lparr>alerts := alerts s @ [make_alert mt sev th cv msg src now]\<rparr>))))"
proof (cases "\<exists>a \<in> set (alerts s). open_for mt a")
  case True
  then show ?thesis
    by (simp add: create_alert_def find_existing_raises)
next
  case False
  then have "find_existing (alerts s) mt src = Inr None"
    by (intro find_existing_none) simp
  with False show ?thesis
    by (simp add: create_alert_def Let_def)
qed

lemma create_alert_phases:
  "create_alert mt sev th cv msg src now s =
     (case dedup_gate mt src s of
        Inl e \<Rightarrow> Inl e
      | Inr True \<Rightarrow> Inr s
      | Inr False \<Rightarrow> Inr (append_alert mt sev th cv msg src now s))"
  by (simp add: create_alert_def dedup_gate_def append_alert_def Let_def
      split: sum.splits option.splits)

lemma create_alert_Inr:
  assumes "create_alert mt sev th cv msg src now s = Inr s'"
  shows "alerts s' = alerts s @ [make_alert mt sev th cv msg src now]"
    and "\<forall>a \<in> set (alerts s). \<not> open_for mt a"
    and "cfg s' = cfg s"
    and "metrics_buffer s' = metrics_buffer s"
    and "db_metrics s' = db_metrics s"
  using assms
  by (auto simp: create_alert_cases send_notifications_def store_alert_def split: if_splits)

lemma check_alerts_warning_reached:
  "check_alerts ''cpu_usage'' 75 ''system'' 100 (init_monitor default_config [] [])
     = Inr monitor_with_warning"
  by (simp add: check_alerts_def init_monitor_def default_config_def default_rules_def
      reaches_def create_alert_cases send_notifications_def store_alert_def
      monitor_with_warning_def cpu_warning_alert_def Let_def)

text \<open>
  C10: while the alert list holds an unresolved alert of the requested metric type,
  \<^verbatim>\<open>create_alert\<close> raises AttributeError: no new state is produced, so no alert is
  appended, nothing is stored and nothing is notified.
\<close>

theorem create_alert_open_raises:
  assumes "a \<in> set (alerts s)" and "\<not> resolved a" and "alert_metric_type a = mt"
  shows "create_alert mt sev th cv msg src now s = Inl AttributeError"
proof -
  have "\<exists>a \<in> set (alerts s). open_for mt a"
    using assms by (auto simp: open_for_def)
  then have "find_existing (alerts s) mt src = Inl AttributeError"
    by (rule find_existing_raises)
  then show ?thesis
    by (simp add: create_alert_def)
qed

theorem create_alert_open_raises_witness:
  "cpu_warning_alert \<in> set (alerts monitor_with_warning)
   \<and> \<not> resolved cpu_warning_alert
   \<and> alert_metric_type cpu_warning_alert = ''cpu_usage''
   \<and> create_alert ''cpu_usage'' ''critical'' 90 95 (CriticalMsg ''cpu_usage'' 95 90)
        ''system'' 130 monitor_with_warning = Inl AttributeError"
proof -
  have a: "cpu_warning_alert \<in> set (alerts monitor_with_warning)"
    by (simp add: monitor_with_warning_def)
  have b: "\<not> resolved cpu_warning_alert"
    by (simp add: cpu_warning_alert_def make_alert_def)
  have c: "alert_metric_type cpu_warning_alert = ''cpu_usage''"
    by (simp add: cpu_warning_alert_def make_alert_def)
  from a b c create_alert_open_raises [OF a b c] show ?thesis
    by simp
qed

section \<open>Threshold alerts\<close>

text \<open>
  C1, as the code has it: nothing in the monitor ever sets \<^verbatim>\<open>resolved\<close>. A sample of a
  metric type with configured bounds whose value is strictly below the warning bound (and
  does not reach the critical bound) makes no transition at all: the
  monitor is returned as it was, so an open alert of the key stays unresolved, its
  \<^verbatim>\<open>resolved_at\<close> stays unset, and no alert is created.
\<close>

theorem below_warning_no_transition:
  assumes "alert_rules (cfg s) mt = Some th"
    and "warning th = Some w" and "v < w"
    and "\<not> reaches v (critical th)"
  shows "check_alerts mt v src now s = Inr s"
  using assms by (simp add: check_alerts_def reaches_def)

theorem below_warning_no_transition_witness:
  "alert_rules (cfg monitor_with_warning) ''cpu_usage''
      = Some \<lparr>warning = Some 70, critical = Some 90\<rparr>
   \<and> warning \<lparr>warning = Some 70, critical = Some 90\<rparr> = Some 70
   \<and> (10::real) < 70
   \<and> \<not> reaches 10 (critical \<lparr>warning = Some 70, critical = Some 90\<rparr>)
   \<and> check_alerts ''cpu_usage'' 10 ''system'' 160 monitor_with_warning = Inr monitor_with_warning"
proof -
  have r: "alert_rules (cfg monitor_with_warning) ''cpu_usage''
      = Some \<lparr>warning = Some 70, critical = Some 90\<rparr>"
    by (simp add: monitor_with_warning_def default_config_def default_rules_def)
  have w: "warning \<lparr>warning = Some 70, critical = Some 90\<rparr> = Some 70" by simp
  have v: "(10::real) < 70" by simp
  have c: "\<not> reaches 10 (critical \<lparr>warning = Some 70, critical = Some 90\<rparr>)"
    by (simp add: reaches_def)
  from below_warning_no_transition [OF r w v c, of "''system''" 160] r w v c
  show ?thesis by blast
qed

text \<open>
  C1 as stated fails: with a warning alert open on (cpu_usage, system) and the warning
  bound at 70, the sample 10 leaves the alert unresolved.
\<close>

theorem resolution_counterexample:
  "alert_rules (cfg monitor_with_warning) ''cpu_usage''
      = Some \<lparr>warning = Some 70, critical = Some 90\<rparr>
   \<and> alerts monitor_with_warning = [cpu_warning_alert]
   \<and> alert_metric_type cpu_warning_alert = ''cpu_usage''
   \<and> ident_source (alert_id cpu_warning_alert) = ''system''
   \<and> \<not> resolved cpu_warning_alert
   \<and> resolved_at cpu_warning_alert = None
   \<and> check_alerts ''cpu_usage'' 10 ''system'' 160 monitor_with_warning
        = Inr monitor_with_warning"
  by (simp add: monitor_with_warning_def cpu_warning_alert_def make_alert_def
      default_config_def default_rules_def check_alerts_def reaches_def ident_source_def)

text \<open>
  C3, as the code has it: when the value of a sample is at or above the critical bound
  of its metric type and no unresolved alert of that metric type exists, the check
  appends one unresolved alert of critical severity for the key of the sample.
\<close>

theorem critical_opens_when_none_open:
  assumes "alert_rules (cfg s) mt = Some th"
    and "critical th = Some c" and "v \<ge> c"
    and "filter (open_for mt) (alerts s) = []"
  shows "\<exists>s' a. check_alerts mt v src now s = Inr s'
           \<and> alerts s' = alerts s @ [a]
           \<and> open_for_key mt src a
           \<and> severity a = ''critical''
           \<and> threshold a = c \<and> current_value a = v"
  using assms
  by (simp add: check_alerts_def reaches_def create_alert_cases send_notifications_def
      store_alert_def make_alert_def open_for_key_def ident_source_def filter_empty_conv)

theorem critical_opens_when_none_open_witness:
  "alert_rules (cfg (init_monitor default_config [] [])) ''cpu_usage''
      = Some \<lparr>warning = Some 70, critical = Some 90\<rparr>
   \<and> critical \<lparr>warning = Some 70, critical = Some 90\<rparr> = Some 90
   \<and> (95::real) \<ge> 90
   \<and> filter (open_for ''cpu_usage'') (alerts (init_monitor default_config [] [])) = []
   \<and> (\<exists>s' a. check_alerts ''cpu_usage'' 95 ''system'' 130 (init_monitor default_config [] []) = Inr s'
           \<and> alerts s' = alerts (init_monitor default_config [] []) @ [a]
           \<and> open_for_key ''cpu_usage'' ''system'' a
           \<and> severity a = ''critical''
           \<and> threshold a = 90 \<and> current_value a = 95)"
proof -
  have r: "alert_rules (cfg (init_monitor default_config [] [])) ''cpu_usage''
      = Some \<lparr>warning = Some 70, critical = Some 90\<rparr>"
    by (simp add: init_monitor_def default_config_def default_rules_def)
  have c: "critical \<lparr>warning = Some 70, critical = Some 90\<rparr> = Some 90" by simp
  have v: "(95::real) \<ge> 90" by simp
  have n: "filter (open_for ''cpu_usage'') (alerts (init_monitor default_config [] [])) = []"
    by (simp add: init_monitor_def)
  from critical_opens_when_none_open [OF r c v n, of "''system''" 130] r c v n
  show ?thesis by blast
qed

text \<open>
  C3 as stated fails: with a warning alert open on (cpu_usage, system) and the critical
  bound at 90, the sample 95 raises and the alert list keeps the warning alert only.
\<close>

theorem critical_upgrade_counterexample:
  "alert_rules (cfg monitor_with_warning) ''cpu_usage''
      = Some \<lparr>warning = Some 70, critical = Some 90\<rparr>
   \<and> alerts monitor_with_warning = [cpu_warning_alert]
   \<and> severity cpu_warning_alert = ''warning''
   \<and> \<not> resolved cpu_warning_alert
   \<and> check_alerts ''cpu_usage'' 95 ''system'' 130 monitor_with_warning
        = Inl AttributeError"
  by (simp add: monitor_with_warning_def cpu_warning_alert_def make_alert_def
      default_config_def default_rules_def check_alerts_def reaches_def
      create_alert_cases open_for_def)

section \<open>Calls made one after the other\<close>

text \<open>A call that no other call interleaves with keeps the alerts of a key unique.\<close>

lemma dedup_inv_alerts: "alerts s' = alerts s \<Longrightarrow> dedup_inv s' = dedup_inv s"
  by (simp add: dedup_inv_def)

lemma dedup_inv_create_alert:
  assumes "dedup_inv s" and "create_alert mt sev th cv msg src now s = Inr s'"
  shows "dedup_inv s'"
proof -
  let ?a = "make_alert mt sev th cv msg src now"
  have al: "alerts s' = alerts s @ [?a]"
    and none: "\<forall>a \<in> set (alerts s). \<not> open_for mt a"
    using create_alert_Inr [OF assms(2)] by blast+
  have "length (filter (open_for k) (alerts s')) \<le> 1" for k
  proof (cases "k = mt")
    case True
    from none have "filter (open_for mt) (alerts s) = []"
      by (simp add: filter_empty_conv)
    with True al show ?thesis by simp
  next
    case False
    then have "\<not> open_for k ?a"
      by (simp add: open_for_def make_alert_def)
    with al assms(1) show ?thesis
      by (simp add: dedup_inv_def)
  qed
  then show ?thesis by (simp add: dedup_inv_def)
qed

lemma dedup_inv_create_all:
  "dedup_inv s \<Longrightarrow> dedup_inv (fst (create_all cs now s))"
proof (induction cs arbitrary: s)
  case Nil
  then show ?case by simp
next
  case (Cons c cs)
  obtain mt sev th cv msg src where c: "c = (mt, sev, th, cv, msg, src)"
    by (cases c) auto
  show ?case
  proof (cases "create_alert mt sev th cv msg src now s")
    case (Inl e)
    with c Cons.prems show ?thesis by simp
  next
    case (Inr s')
    with Cons.prems have "dedup_inv s'" by (auto dest: dedup_inv_create_alert)
    then have "dedup_inv (fst (create_all cs now s'))" by (rule Cons.IH)
    with c Inr show ?thesis by simp
  qed
qed

lemma create_all_append:
  "create_all (cs @ ds) now s =
     (case create_all cs now s of
        (s', Some e) \<Rightarrow> (s', Some e)
      | (s', None) \<Rightarrow> create_all ds now s')"
proof (induction cs arbitrary: s)
  case Nil
  then show ?case by simp
next
  case (Cons c cs)
  obtain mt sev th cv msg src where c: "c = (mt, sev, th, cv, msg, src)"
    by (cases c) auto
  show ?case
    using Cons.IH by (simp add: c split: sum.splits)
qed

lemma anomaly_scan_create_all:
  "anomaly_scan ar recent mt mu sd now s = create_all (scan_requests ar recent mt mu sd) now s"
proof (induction recent arbitrary: s)
  case Nil
  then show ?case by (simp add: scan_requests_def)
next
  case (Cons m ms)
  then show ?case
    by (simp add: scan_requests_def anomaly_call_def split: sum.splits)
qed

lemma anomaly_types_create_all:
  "anomaly_types ar groups recent now s = create_all (type_requests ar groups recent) now s"
proof (induction groups arbitrary: s)
  case Nil
  then show ?case by simp
next
  case (Cons g groups)
  obtain mt vs where g: "g = (mt, vs)" by (cases g)
  show ?case
    using Cons.IH
    by (simp add: g create_all_append anomaly_scan_create_all split: prod.splits option.splits)
qed

lemma detect_anomalies_create_all:
  "detect_anomalies ar now s = create_all (anomaly_requests ar now s) now s"
  by (simp add: detect_anomalies_def anomaly_requests_def anomaly_types_create_all Let_def)

lemma predictive_loop_step:
  "predictive_loop (mt # rest) now s = predictive_loop rest now s
   \<or> (\<not> length (get_metric_history mt 24 now s) < 20
       \<and> (\<exists>th cv msg s'. create_alert mt ''warning'' th cv msg ''prediction'' now s = Inr s'
             \<and> predictive_loop (mt # rest) now s = predictive_loop rest now s'))
   \<or> predictive_loop (mt # rest) now s = (s, Some AttributeError)"
proof -
  have e: "create_alert mt sev th cv msg src now s = Inl x \<Longrightarrow> x = AttributeError"
    for sev th cv msg src x
    by (simp add: create_alert_cases split: if_splits)
  show ?thesis
    by (auto simp: Let_def split: option.splits sum.splits dest: e)
qed

lemma open_key_le_open:
  "length (filter (open_for_key mt src) as) \<le> length (filter (open_for mt) as)"
proof -
  have "filter (open_for_key mt src) as
          = filter (\<lambda>a. ident_source (alert_id a) = src) (filter (open_for mt) as)"
    by (induction as) (auto simp: open_for_key_def open_for_def)
  then show ?thesis
    by (metis length_filter_le)
qed

section \<open>Calls and the alerts they add\<close>




lemma of_type_unchanged:
  assumes "alerts s' = alerts s @ new" and "\<forall>a \<in> set new. alert_metric_type a \<noteq> mt"
  shows "of_type mt (alerts s') = of_type mt (alerts s)"
  using assms by (simp add: of_type_def filter_empty_conv)

section \<open>Grouping by metric type\<close>











section \<open>Anomaly detection\<close>

lemma z_score_positive_stdev: "z_score ar v mu sd > 3 \<Longrightarrow> sd > 0"
  by (simp add: z_score_def split: if_splits)



lemma call_alert_type: "alert_metric_type (call_alert now c) = fst c"
  by (cases c) (simp add: call_alert_def make_alert_def)









text \<open>The sample buffers, evaluated in the arithmetic without rounding.\<close>

lemma exact_simps:
  "fmean exact = mean" "fstdev exact = stdev" "fadd exact = (+)" "fsub exact = (-)"
  "fmul exact = (*)" "fdiv exact = (/)"
  by (simp_all add: exact_def)

lemma anomaly_recent:
  "recent_metrics 1000 anomaly_monitor = cpu_window @ memory_window @ disk_window"
  by (simp add: recent_metrics_def anomaly_monitor_def cpu_window_def memory_window_def
      disk_window_def sample_def)

lemma cpu_values:
  "window_values ''cpu_usage'' 1000 anomaly_monitor
     = [50, 50, 50, 50, 50, 50, 50, 50, 50, 50, 50, 50, 50, 50, 50, 54]"
  by (simp add: window_values_def anomaly_recent cpu_window_def memory_window_def
      disk_window_def sample_def)



lemma cpu_mean:
  "mean [50, 50, 50, 50, 50, 50, 50, 50, 50, 50, 50, 50, 50, 50, 50, 54] = 201 / 4"
  by (simp add: mean_def)

lemma cpu_stdev:
  "stdev [50, 50, 50, 50, 50, 50, 50, 50, 50, 50, 50, 50, 50, 50, 50, 54] = 1"
  by (simp add: stdev_def cpu_mean power2_eq_square)

lemma disk_mean: "mean [40, 40, 40, 40, 40, 40, 40, 40, 40, 40] = 40"
  by (simp add: mean_def)

lemma disk_stdev: "stdev [40, 40, 40, 40, 40, 40, 40, 40, 40, 40] = 0"
  by (simp add: stdev_def disk_mean)

lemma anomaly_groups:
  "metrics_by_type (cpu_window @ memory_window @ disk_window)
     = [(''cpu_usage'', [50, 50, 50, 50, 50, 50, 50, 50, 50, 50, 50, 50, 50, 50, 50, 54]),
        (''memory_usage'', [10, 99]),
        (''disk_usage'', [40, 40, 40, 40, 40, 40, 40, 40, 40, 40])]"
  by (simp add: metrics_by_type_def cpu_window_def memory_window_def disk_window_def sample_def)

lemma anomaly_requests_sample:
  "anomaly_requests exact 1000 anomaly_monitor
     = [(''cpu_usage'', ''warning'', 213 / 4, 54, AnomalyMsg ''cpu_usage'' 54 (15 / 4),
         ''system'')]"
proof -
  have "anomaly_requests exact 1000 anomaly_monitor
      = scan_requests exact (cpu_window @ memory_window @ disk_window) ''cpu_usage'' (201 / 4) 1
        @ scan_requests exact (cpu_window @ memory_window @ disk_window) ''disk_usage'' 40 0"
    unfolding anomaly_requests_def Let_def anomaly_recent anomaly_groups
    by (simp add: window_stdev_def exact_simps cpu_mean cpu_stdev disk_mean disk_stdev)
  also have "\<dots> = [(''cpu_usage'', ''warning'', 213 / 4, 54,
                      AnomalyMsg ''cpu_usage'' 54 (15 / 4), ''system'')]"
    by (simp add: scan_requests_def z_score_def anomaly_call_def exact_simps cpu_window_def
        memory_window_def disk_window_def sample_def)
  finally show ?thesis .
qed

lemma sample_monitors_no_alerts:
  "alerts anomaly_monitor = []" "alerts trend_monitor = []" "alerts rising_monitor = []"
  by (simp_all add: anomaly_monitor_def trend_monitor_def rising_monitor_def)











section \<open>Calls of create_alert on concurrent threads\<close>

text \<open>A thread that runs its call alone makes the call as \<^verbatim>\<open>create_alert\<close> does.\<close>

lemma call_alone:
  "interleave [0, 0] [Calling now (mt, sev, th, cv, msg, src)] s =
     (case create_alert mt sev th cv msg src now s of
        Inl e \<Rightarrow> ([Raised e], s)
      | Inr s' \<Rightarrow> ([Returned], s'))"
  by (simp add: create_alert_phases split: sum.splits bool.splits)

text \<open>
  C2 at a failing input: two threads call \<^verbatim>\<open>create_alert\<close> for the key
  (cpu_usage, system) on a monitor without alerts, the thread of the system loop through
  \<^verbatim>\<open>check_alerts\<close> for the CPU sample 95, and the thread of the analytics loop through
  \<^verbatim>\<open>detect_anomalies\<close> for the CPU sample 54 of the window. Both pass the gate before
  either creates its alert, and the alert list then holds two unresolved alerts of the key.
\<close>

theorem interleaved_calls_duplicate_alert:
  "alerts anomaly_monitor = []
   \<and> check_alerts ''cpu_usage'' 95 ''system'' 1000 anomaly_monitor
       = create_alert ''cpu_usage'' ''critical'' 90 95 (CriticalMsg ''cpu_usage'' 95 90)
           ''system'' 1000 anomaly_monitor
   \<and> detect_anomalies exact 1000 anomaly_monitor
       = create_all [(''cpu_usage'', ''warning'', 213 / 4, 54,
                      AnomalyMsg ''cpu_usage'' 54 (15 / 4), ''system'')] 1000 anomaly_monitor
   \<and> fst (interleave [0, 1, 0, 1]
            [Calling 1000 (''cpu_usage'', ''critical'', 90, 95,
                           CriticalMsg ''cpu_usage'' 95 90, ''system''),
             Calling 1000 (''cpu_usage'', ''warning'', 213 / 4, 54,
                           AnomalyMsg ''cpu_usage'' 54 (15 / 4), ''system'')]
            anomaly_monitor) = [Returned, Returned]
   \<and> alerts (snd (interleave [0, 1, 0, 1]
            [Calling 1000 (''cpu_usage'', ''critical'', 90, 95,
                           CriticalMsg ''cpu_usage'' 95 90, ''system''),
             Calling 1000 (''cpu_usage'', ''warning'', 213 / 4, 54,
                           AnomalyMsg ''cpu_usage'' 54 (15 / 4), ''system'')]
            anomaly_monitor))
       = [make_alert ''cpu_usage'' ''critical'' 90 95 (CriticalMsg ''cpu_usage'' 95 90)
            ''system'' 1000,
          make_alert ''cpu_usage'' ''warning'' (213 / 4) 54
            (AnomalyMsg ''cpu_usage'' 54 (15 / 4)) ''system'' 1000]
   \<and> length (filter (open_for_key ''cpu_usage'' ''system'')
         (alerts (snd (interleave [0, 1, 0, 1]
            [Calling 1000 (''cpu_usage'', ''critical'', 90, 95,
                           CriticalMsg ''cpu_usage'' 95 90, ''system''),
             Calling 1000 (''cpu_usage'', ''warning'', 213 / 4, 54,
                           AnomalyMsg ''cpu_usage'' 54 (15 / 4), ''system'')]
            anomaly_monitor)))) = 2"
proof -
  have a: "alerts anomaly_monitor = []"
    by (rule sample_monitors_no_alerts)
  have c: "check_alerts ''cpu_usage'' 95 ''system'' 1000 anomaly_monitor
       = create_alert ''cpu_usage'' ''critical'' 90 95 (CriticalMsg ''cpu_usage'' 95 90)
           ''system'' 1000 anomaly_monitor"
    by (simp add: check_alerts_def anomaly_monitor_def default_config_def default_rules_def
        reaches_def)
  have d: "detect_anomalies exact 1000 anomaly_monitor
       = create_all [(''cpu_usage'', ''warning'', 213 / 4, 54,
                      AnomalyMsg ''cpu_usage'' 54 (15 / 4), ''system'')] 1000 anomaly_monitor"
    by (simp only: detect_anomalies_create_all anomaly_requests_sample)
  have g: "dedup_gate ''cpu_usage'' ''system'' anomaly_monitor = Inr False"
    by (simp add: dedup_gate_def a)
  have i: "interleave [0, 1, 0, 1]
            [Calling 1000 (''cpu_usage'', ''critical'', 90, 95,
                           CriticalMsg ''cpu_usage'' 95 90, ''system''),
             Calling 1000 (''cpu_usage'', ''warning'', 213 / 4, 54,
                           AnomalyMsg ''cpu_usage'' 54 (15 / 4), ''system'')]
            anomaly_monitor
      = ([Returned, Returned],
         append_alert ''cpu_usage'' ''warning'' (213 / 4) 54
           (AnomalyMsg ''cpu_usage'' 54 (15 / 4)) ''system'' 1000
           (append_alert ''cpu_usage'' ''critical'' 90 95 (CriticalMsg ''cpu_usage'' 95 90)
              ''system'' 1000 anomaly_monitor))"
    by (simp add: g)
  show ?thesis
    unfolding i using a c d
    by (simp add: append_alert_def send_notifications_def store_alert_def Let_def
        open_for_key_def make_alert_def ident_source_def)
qed

section \<open>Trend prediction\<close>

lemma get_metric_history_db:
  "db_metrics s' = db_metrics s \<Longrightarrow> get_metric_history mt h now s' = get_metric_history mt h now s"
  by (simp add: get_metric_history_def)

lemma predictive_loop_alerts:
  "\<exists>new. alerts (fst (predictive_loop mts now s)) = alerts s @ new
         \<and> (\<forall>a \<in> set new. predicted_alert now s mts a)"
proof (induction mts arbitrary: s)
  case Nil
  then show ?case by simp
next
  case (Cons mt rest)
  have weaken: "predicted_alert now s (mt # rest) a" if "predicted_alert now s rest a" for a
    using that by (simp add: predicted_alert_def)
  from predictive_loop_step [of mt rest now s] show ?case
  proof (elim disjE exE conjE)
    assume "predictive_loop (mt # rest) now s = predictive_loop rest now s"
    with Cons.IH [of s] weaken show ?thesis by auto
  next
    fix th cv msg s'
    assume len: "\<not> length (get_metric_history mt 24 now s) < 20"
      and c: "create_alert mt ''warning'' th cv msg ''prediction'' now s = Inr s'"
      and p: "predictive_loop (mt # rest) now s = predictive_loop rest now s'"
    let ?a = "make_alert mt ''warning'' th cv msg ''prediction'' now"
    from create_alert_Inr [OF c]
    have al: "alerts s' = alerts s @ [?a]" and db: "db_metrics s' = db_metrics s"
      by blast+
    from Cons.IH [of s'] obtain new where
      n: "alerts (fst (predictive_loop rest now s')) = alerts s' @ new"
      and q: "\<forall>a \<in> set new. predicted_alert now s' rest a"
      by blast
    have q': "\<forall>a \<in> set new. predicted_alert now s (mt # rest) a"
      using q by (simp add: predicted_alert_def get_metric_history_db [OF db])
    have "predicted_alert now s (mt # rest) ?a"
      using len by (simp add: predicted_alert_def make_alert_def ident_source_def)
    with q' have "\<forall>a \<in> set (?a # new). predicted_alert now s (mt # rest) a"
      by simp
    moreover have "alerts (fst (predictive_loop (mt # rest) now s)) = alerts s @ (?a # new)"
      using p n al by simp
    ultimately show ?thesis by blast
  next
    assume "predictive_loop (mt # rest) now s = (s, Some AttributeError)"
    then show ?thesis by simp
  qed
qed

lemma predictive_new_alerts:
  "alerts (fst (generate_predictive_alerts now s))
     = alerts s @ new_alerts s (fst (generate_predictive_alerts now s))"
  "\<forall>a \<in> set (new_alerts s (fst (generate_predictive_alerts now s))).
     predicted_alert now s [''cpu_usage'', ''memory_usage'', ''disk_usage''] a"
  using predictive_loop_alerts [of "[''cpu_usage'', ''memory_usage'', ''disk_usage'']" now s]
  unfolding generate_predictive_alerts_def by (auto simp: new_alerts_def)

text \<open>The sample metrics table, evaluated.\<close>

lemma trend_history:
  "get_metric_history ''cpu_usage'' 24 72000 trend_monitor = trend_rows"
  by (simp add: get_metric_history_def trend_monitor_def trend_rows_def sample_def)

lemma trend_history_memory:
  "get_metric_history ''memory_usage'' 24 72000 trend_monitor = []"
  by (simp add: get_metric_history_def trend_monitor_def trend_rows_def sample_def)

lemma trend_history_disk:
  "get_metric_history ''disk_usage'' 24 72000 trend_monitor = []"
  by (simp add: get_metric_history_def trend_monitor_def trend_rows_def sample_def)

lemma trend_times:
  "sample_times 72000 trend_rows
     = [20, 19, 18, 17, 16, 15, 14, 13, 12, 11, 10, 9, 8, 7, 6, 5, 4, 3, 2, 1]"
  by (simp add: sample_times_def trend_rows_def sample_def)

lemma trend_values:
  "map mvalue trend_rows = [0, 0, 0, 0, 0, 0, 0, 0, 0, 0, 0, 0, 0, 0, 0, 0, 0, 0, 0, 100]"
  by (simp add: trend_rows_def sample_def)

lemma trend_predicted: "predicted_value 72000 trend_rows = 640 / 7"
  unfolding predicted_value_def Let_def trend_times trend_values
  by (simp add: trend_slope_def)

lemma predictive_loop_skip:
  "length (get_metric_history mt 24 now s) < 20
     \<Longrightarrow> predictive_loop (mt # rest) now s = predictive_loop rest now s"
  by (simp add: Let_def)

lemma predictive_loop_fires:
  assumes "\<not> length (get_metric_history mt 24 now s) < 20"
    and "alert_rules (cfg s) mt = Some th" and "critical th = Some c"
    and "predicted_value now (get_metric_history mt 24 now s) = p" and "p \<ge> c"
    and "create_alert mt ''warning'' c p (PredictedMsg mt p) ''prediction'' now s = Inr s'"
  shows "predictive_loop (mt # rest) now s = predictive_loop rest now s'"
proof -
  from assms(1) have "get_metric_history mt 24 now s \<noteq> []"
    by auto
  with assms show ?thesis
    by (simp add: Let_def)
qed

lemma trend_alerts:
  "alerts (fst (generate_predictive_alerts 72000 trend_monitor))
     = [make_alert ''cpu_usage'' ''warning'' 90 (640 / 7)
          (PredictedMsg ''cpu_usage'' (640 / 7)) ''prediction'' 72000]"
proof -
  let ?a = "make_alert ''cpu_usage'' ''warning'' 90 (640 / 7)
              (PredictedMsg ''cpu_usage'' (640 / 7)) ''prediction'' 72000"
  let ?s1 = "send_notifications ?a (store_alert ?a (trend_monitor\<lparr>alerts := [?a]\<rparr>))"
  have l: "\<not> length (get_metric_history ''cpu_usage'' 24 72000 trend_monitor) < 20"
    by (simp add: trend_history trend_rows_def)
  have r: "alert_rules (cfg trend_monitor) ''cpu_usage''
             = Some \<lparr>warning = Some 70, critical = Some 90\<rparr>"
    by (simp add: trend_monitor_def default_config_def default_rules_def)
  have p: "predicted_value 72000 (get_metric_history ''cpu_usage'' 24 72000 trend_monitor)
             = 640 / 7"
    by (simp add: trend_history trend_predicted)
  have c: "create_alert ''cpu_usage'' ''warning'' 90 (640 / 7)
             (PredictedMsg ''cpu_usage'' (640 / 7)) ''prediction'' 72000 trend_monitor = Inr ?s1"
    by (simp add: create_alert_cases trend_monitor_def)
  have 1: "predictive_loop [''cpu_usage'', ''memory_usage'', ''disk_usage''] 72000 trend_monitor
     = predictive_loop [''memory_usage'', ''disk_usage''] 72000 ?s1"
    by (rule predictive_loop_fires [OF l r _ p _ c]) simp_all
  have db: "db_metrics ?s1 = db_metrics trend_monitor"
    by (simp add: send_notifications_def store_alert_def)
  have 2: "predictive_loop [''memory_usage'', ''disk_usage''] 72000 ?s1
             = predictive_loop [''disk_usage''] 72000 ?s1"
    by (rule predictive_loop_skip)
       (simp add: get_metric_history_db [OF db] trend_history_memory)
  have 3: "predictive_loop [''disk_usage''] 72000 ?s1 = predictive_loop [] 72000 ?s1"
    by (rule predictive_loop_skip)
       (simp add: get_metric_history_db [OF db] trend_history_disk)
  show ?thesis
    unfolding generate_predictive_alerts_def 1 2 3
    by (simp add: send_notifications_def store_alert_def)
qed

text \<open>
  C6: the trend predictor creates no alert of a metric type with fewer than 20 rows in
  its 24-hour history, and every alert that it creates has the severity warning, not
  critical.
\<close>

theorem prediction_gating:
  "(length (get_metric_history mt 24 now s) < 20
      \<longrightarrow> of_type mt (alerts (fst (generate_predictive_alerts now s))) = of_type mt (alerts s))
   \<and> (\<forall>a \<in> set (new_alerts s (fst (generate_predictive_alerts now s))).
         severity a = ''warning'' \<and> severity a \<noteq> ''critical'')"
proof (intro conjI impI ballI)
  assume len: "length (get_metric_history mt 24 now s) < 20"
  have "\<forall>a \<in> set (new_alerts s (fst (generate_predictive_alerts now s))).
          alert_metric_type a \<noteq> mt"
    using predictive_new_alerts(2) [of s now] len by (auto simp: predicted_alert_def)
  with predictive_new_alerts(1) [of now s]
  show "of_type mt (alerts (fst (generate_predictive_alerts now s))) = of_type mt (alerts s)"
    by (rule of_type_unchanged)
next
  fix a
  assume "a \<in> set (new_alerts s (fst (generate_predictive_alerts now s)))"
  with predictive_new_alerts(2) [of s now] have "severity a = ''warning''"
    by (simp add: predicted_alert_def)
  then show "severity a = ''warning''" and "severity a \<noteq> ''critical''"
    by simp_all
qed

theorem prediction_gating_witness:
  "length (get_metric_history ''memory_usage'' 24 72000 trend_monitor) < 20
   \<and> of_type ''memory_usage'' (alerts (fst (generate_predictive_alerts 72000 trend_monitor)))
       = of_type ''memory_usage'' (alerts trend_monitor)
   \<and> new_alerts trend_monitor (fst (generate_predictive_alerts 72000 trend_monitor))
       = [make_alert ''cpu_usage'' ''warning'' 90 (640 / 7)
            (PredictedMsg ''cpu_usage'' (640 / 7)) ''prediction'' 72000]
   \<and> severity (make_alert ''cpu_usage'' ''warning'' 90 (640 / 7)
            (PredictedMsg ''cpu_usage'' (640 / 7)) ''prediction'' 72000) = ''warning''"
proof -
  let ?a = "make_alert ''cpu_usage'' ''warning'' 90 (640 / 7)
              (PredictedMsg ''cpu_usage'' (640 / 7)) ''prediction'' 72000"
  have l: "length (get_metric_history ''memory_usage'' 24 72000 trend_monitor) < 20"
    by (simp add: trend_history_memory)
  have n: "new_alerts trend_monitor (fst (generate_predictive_alerts 72000 trend_monitor)) = [?a]"
    by (simp add: new_alerts_def trend_alerts sample_monitors_no_alerts)
  from prediction_gating [of "''memory_usage''" 72000 trend_monitor] l
  have u: "of_type ''memory_usage'' (alerts (fst (generate_predictive_alerts 72000 trend_monitor)))
       = of_type ''memory_usage'' (alerts trend_monitor)"
    by blast
  from prediction_gating [of "''memory_usage''" 72000 trend_monitor] n
  have "severity ?a = ''warning''"
    by simp
  with l u n show ?thesis by blast
qed




section \<open>A rising trend\<close>

lemma rising_history:
  "get_metric_history ''cpu_usage'' 24 72000 rising_monitor = rising_rows"
  "get_metric_history ''memory_usage'' 24 72000 rising_monitor = []"
  "get_metric_history ''disk_usage'' 24 72000 rising_monitor = []"
  by (simp_all add: get_metric_history_def rising_monitor_def rising_rows_def sample_def)

lemma rising_times:
  "sample_times 72000 rising_rows
     = [20, 19, 18, 17, 16, 15, 14, 13, 12, 11, 10, 9, 8, 7, 6, 5, 4, 3, 2, 1]"
  "elapsed_hours 0 rising_rows
     = [0, 1, 2, 3, 4, 5, 6, 7, 8, 9, 10, 11, 12, 13, 14, 15, 16, 17, 18, 19]"
  by (simp_all add: sample_times_def elapsed_hours_def rising_rows_def sample_def)

lemma rising_values:
  "map mvalue rising_rows
     = [70, 71, 72, 73, 74, 75, 76, 77, 78, 79, 80, 81, 82, 83, 84, 85, 86, 87, 88, 89]"
  by (simp add: rising_rows_def sample_def)

lemma rising_predicted: "predicted_value 72000 rising_rows = 83"
  unfolding predicted_value_def Let_def rising_times rising_values
  by (simp add: trend_slope_def)

lemma rising_projection_ahead:
  "ols_projection (elapsed_hours 0 rising_rows) (map mvalue rising_rows) 20 6 = 96"
proof -
  have m: "mean [0, 1, 2, 3, 4, 5, 6, 7, 8, 9, 10, 11, 12, 13, 14, 15, 16, 17, 18, 19 :: real]
             = 19 / 2"
    "mean [70, 71, 72, 73, 74, 75, 76, 77, 78, 79, 80, 81, 82, 83, 84, 85, 86, 87, 88, 89 :: real]
             = 159 / 2"
    by (simp_all add: mean_def)
  have s: "ols_slope (elapsed_hours 0 rising_rows) (map mvalue rising_rows) = 1"
    unfolding ols_slope_def rising_times rising_values m
    by (simp add: power2_eq_square)
  show ?thesis
    unfolding ols_projection_def ols_intercept_def s
    unfolding rising_times rising_values m
    by simp
qed

lemma rising_projection_ages:
  "ols_projection (sample_times 72000 rising_rows) (map mvalue rising_rows) 0 6 = 84"
proof -
  have m: "mean [20, 19, 18, 17, 16, 15, 14, 13, 12, 11, 10, 9, 8, 7, 6, 5, 4, 3, 2, 1 :: real]
             = 21 / 2"
    "mean [70, 71, 72, 73, 74, 75, 76, 77, 78, 79, 80, 81, 82, 83, 84, 85, 86, 87, 88, 89 :: real]
             = 159 / 2"
    by (simp_all add: mean_def)
  have s: "ols_slope (sample_times 72000 rising_rows) (map mvalue rising_rows) = - 1"
    unfolding ols_slope_def rising_times rising_values m
    by (simp add: power2_eq_square)
  show ?thesis
    unfolding ols_projection_def ols_intercept_def s
    unfolding rising_times rising_values m
    by simp
qed

lemma predictive_loop_quiet:
  assumes "\<not> length (get_metric_history mt 24 now s) < 20"
    and "alert_rules (cfg s) mt = Some th" and "critical th = Some c"
    and "predicted_value now (get_metric_history mt 24 now s) < c"
  shows "predictive_loop (mt # rest) now s = predictive_loop rest now s"
proof -
  from assms(1) have "get_metric_history mt 24 now s \<noteq> []"
    by auto
  with assms show ?thesis
    by (simp add: Let_def)
qed

text \<open>
  C7 at a failing input: twenty hourly CPU rows rising from 70 to 89, one per hour, read
  one hour after the newest, with the critical threshold 90. The least-squares line over
  the elapsed hours has the value 96 six hours after the present moment, which reaches the
  threshold. The code compares 83 with the threshold and creates no alert: it takes the
  slope over the ages of the rows, which falls where the values rise, and adds 6 times
  that slope to the newest value. Over the ages, the line has the value 84 at \<open>0 + 6\<close>.
  All numbers of the example are floating-point numbers and the divisions are exact.
\<close>

theorem rising_trend_projected_down:
  "get_metric_history ''cpu_usage'' 24 72000 rising_monitor = rising_rows
   \<and> length rising_rows = 20
   \<and> alert_rules (cfg rising_monitor) ''cpu_usage''
       = Some \<lparr>warning = Some 70, critical = Some 90\<rparr>
   \<and> predicted_value 72000 rising_rows = 83
   \<and> ols_projection (elapsed_hours 0 rising_rows) (map mvalue rising_rows) 20 6 = 96
   \<and> ols_projection (sample_times 72000 rising_rows) (map mvalue rising_rows) 0 6 = 84
   \<and> generate_predictive_alerts 72000 rising_monitor = (rising_monitor, None)"
proof -
  have l: "length rising_rows = 20"
    by (simp add: rising_rows_def)
  have r: "alert_rules (cfg rising_monitor) ''cpu_usage''
       = Some \<lparr>warning = Some 70, critical = Some 90\<rparr>"
    by (simp add: rising_monitor_def default_config_def default_rules_def)
  have 1: "predictive_loop [''cpu_usage'', ''memory_usage'', ''disk_usage''] 72000 rising_monitor
      = predictive_loop [''memory_usage'', ''disk_usage''] 72000 rising_monitor"
  proof (rule predictive_loop_quiet [OF _ r])
    show "\<not> length (get_metric_history ''cpu_usage'' 24 72000 rising_monitor) < 20"
      by (simp add: rising_history l)
    show "critical \<lparr>warning = Some 70, critical = Some 90\<rparr> = Some 90"
      by simp
    show "predicted_value 72000 (get_metric_history ''cpu_usage'' 24 72000 rising_monitor) < 90"
      by (simp add: rising_history rising_predicted)
  qed
  have 2: "predictive_loop [''memory_usage'', ''disk_usage''] 72000 rising_monitor
      = predictive_loop [''disk_usage''] 72000 rising_monitor"
    by (rule predictive_loop_skip) (simp add: rising_history)
  have 3: "predictive_loop [''disk_usage''] 72000 rising_monitor
      = predictive_loop [] 72000 rising_monitor"
    by (rule predictive_loop_skip) (simp add: rising_history)
  have "generate_predictive_alerts 72000 rising_monitor = (rising_monitor, None)"
    unfolding generate_predictive_alerts_def 1 2 3 by simp
  with l r show ?thesis
    by (simp add: rising_history rising_predicted rising_projection_ahead
        rising_projection_ages)
qed

section \<open>Endpoint checks and the buffer\<close>

lemma check_endpoint_no_sample:
  "metrics_buffer (fst (check_endpoint ep Timeout now s)) = metrics_buffer s"
  "db_metrics (fst (check_endpoint ep Timeout now s)) = db_metrics s"
  "check_endpoint ep Failure now s = (s, None)"
  by (auto simp: check_endpoint_def split: sum.splits dest: create_alert_Inr(4,5))

text \<open>
  C8 at a failing input: the check of the endpoint "api" of the built-in configuration
  ends in a timeout, on the monitor as \<^verbatim>\<open>__init__\<close> leaves it. The check creates
  a critical alert and records no sample: the buffer and the metrics table stay empty.
  When the request fails otherwise, the monitor is unchanged.
\<close>

theorem failed_check_records_no_sample:
  "check_endpoint \<lparr>ep_name = ''api'', ep_url = ''https://api.example.com/health'',
       ep_timeout = Some 10\<rparr> Timeout 100 (init_monitor default_config [] [])
     = ((init_monitor default_config [] [])
          \<lparr>alerts := [make_alert ''availability'' ''critical'' 100 0
                         (TimeoutMsg ''api'' 10) ''system'' 100],
            db_alerts := [make_alert ''availability'' ''critical'' 100 0
                         (TimeoutMsg ''api'' 10) ''system'' 100]\<rparr>, None)
   \<and> metrics_buffer (fst (check_endpoint \<lparr>ep_name = ''api'',
         ep_url = ''https://api.example.com/health'', ep_timeout = Some 10\<rparr> Timeout 100
         (init_monitor default_config [] []))) = []
   \<and> db_metrics (fst (check_endpoint \<lparr>ep_name = ''api'',
         ep_url = ''https://api.example.com/health'', ep_timeout = Some 10\<rparr> Timeout 100
         (init_monitor default_config [] []))) = []
   \<and> check_endpoint \<lparr>ep_name = ''api'', ep_url = ''https://api.example.com/health'',
       ep_timeout = Some 10\<rparr> Failure 100 (init_monitor default_config [] [])
     = (init_monitor default_config [] [], None)"
  by (simp add: check_endpoint_def create_alert_cases init_monitor_def default_config_def
      send_notifications_def store_alert_def)

lemma alerts_add_metric [simp]: "alerts (add_metric mt v u src md now s) = alerts s"
  by (simp add: add_metric_def store_metric_def Let_def)

lemma cfg_add_metric [simp]: "cfg (add_metric mt v u src md now s) = cfg s"
  by (simp add: add_metric_def store_metric_def Let_def)

lemma py_slice_last:
  "0 < c \<Longrightarrow> py_slice_from (- int c) xs = drop (length xs - c) xs"
  by (auto simp: py_slice_from_def Let_def max_def nat_diff_distrib' intro: arg_cong2 [where f = drop])

lemma metrics_buffer_add_metric:
  assumes "buffer_size (cfg s) = int c" and "0 < c"
  shows "metrics_buffer (add_metric mt v u src md now s)
           = drop (Suc (length (metrics_buffer s)) - c)
               (metrics_buffer s @ [\<lparr>timestamp = now, metric_type = mt, mvalue = v,
                  munit = u, source = src, metadata = md\<rparr>])"
  using assms by (auto simp: add_metric_def store_metric_def Let_def py_slice_last)

lemma drop_append_left: "k \<le> length xs \<Longrightarrow> drop k (xs @ ys) = drop k xs @ ys"
  by simp

lemma drop_tail_step:
  assumes "k \<le> length X - c"
  shows "drop (length (drop k X) - c) (drop k X) = drop (length X - c) X"
proof -
  have "length (drop k X) - c + k = length X - c"
    using assms by simp
  then show ?thesis
    by (simp only: drop_drop)
qed

lemma add_all_buffer:
  assumes "buffer_size (cfg s) = int c" and "0 < c" and "length (metrics_buffer s) \<le> c"
  shows "metrics_buffer (add_all ms s)
           = drop (length (metrics_buffer s @ ms) - c) (metrics_buffer s @ ms)"
  using assms
proof (induction ms arbitrary: s)
  case Nil
  then show ?case by simp
next
  case (Cons m ms)
  let ?s1 = "add_metric (metric_type m) (mvalue m) (munit m) (source m) (metadata m)
               (timestamp m) s"
  define k where "k = Suc (length (metrics_buffer s)) - c"
  have m: "\<lparr>timestamp = timestamp m, metric_type = metric_type m, mvalue = mvalue m,
            munit = munit m, source = source m, metadata = metadata m\<rparr> = m"
    by simp
  have b1: "metrics_buffer ?s1 = drop k (metrics_buffer s @ [m])"
    using metrics_buffer_add_metric [OF Cons.prems(1,2), of "metric_type m" "mvalue m" "munit m"
        "source m" "metadata m" "timestamp m"] m by (simp add: k_def)
  have c1: "buffer_size (cfg ?s1) = int c"
    using Cons.prems(1) by simp
  have l1: "length (metrics_buffer ?s1) \<le> c"
    using Cons.prems(2,3) by (simp add: b1 k_def)
  have k1: "k \<le> length (metrics_buffer s @ [m])"
    and k2: "k \<le> length ((metrics_buffer s @ [m]) @ ms) - c"
    by (simp_all add: k_def)
  have x: "metrics_buffer ?s1 @ ms = drop k ((metrics_buffer s @ [m]) @ ms)"
    unfolding b1 using k1 by (rule drop_append_left [symmetric])
  have "metrics_buffer (add_all (m # ms) s) = metrics_buffer (add_all ms ?s1)"
    by simp
  also have "\<dots> = drop (length (metrics_buffer ?s1 @ ms) - c) (metrics_buffer ?s1 @ ms)"
    using c1 Cons.prems(2) l1 by (rule Cons.IH)
  also have "\<dots> = drop (length ((metrics_buffer s @ [m]) @ ms) - c)
                      ((metrics_buffer s @ [m]) @ ms)"
    unfolding x using k2 by (rule drop_tail_step)
  finally show ?case by simp
qed

text \<open>
  For every capacity of at least 1, after more inserts than the capacity the buffer holds
  exactly the most recent samples, as many as the capacity, in insertion order.
\<close>

lemma buffer_holds_most_recent:
  assumes "buffer_size (cfg s) = int c" and "0 < c" and "metrics_buffer s = []"
    and "length ms > c"
  shows "metrics_buffer (add_all ms s) = drop (length ms - c) ms"
    and "length (metrics_buffer (add_all ms s)) = c"
  using add_all_buffer [OF assms(1,2), of ms] assms(3,4) by auto

text \<open>
  C9 at a failing input: with the capacity 0 the slice \<^verbatim>\<open>metrics_buffer[-0:]\<close> is the
  whole list, so nothing is evicted: after one insert the buffer holds the sample, and
  after three inserts it holds three.
\<close>

theorem zero_capacity_keeps_every_sample:
  "metrics_buffer (add_metric ''cpu_usage'' 10 ''percent'' ''system'' None 100
      (init_monitor (default_config\<lparr>buffer_size := 0\<rparr>) [] []))
     = [\<lparr>timestamp = 100, metric_type = ''cpu_usage'', mvalue = 10, munit = ''percent'',
         source = ''system'', metadata = None\<rparr>]
   \<and> length (metrics_buffer (add_all [sample ''cpu_usage'' 10 100, sample ''cpu_usage'' 11 130,
         sample ''cpu_usage'' 12 160] (init_monitor (default_config\<lparr>buffer_size := 0\<rparr>) [] [])))
       = 3"
  by (simp add: add_metric_def store_metric_def init_monitor_def default_config_def
      py_slice_from_def sample_def Let_def)

end
